(* ===== verification/Prelude.thy ===== *)
theory Prelude
  imports Complex_Main
begin

text \<open>
  Shared vocabulary of the FDTD development: the Python exceptions the program can
  raise, the error monad that threads them through a computation (a Python statement
  either completes with a value or raises), the named collections of rules that the
  component theories contribute to, and generic lemmas on lists that the loop proofs
  of several components use.
\<close>

section \<open>Python exceptions and the error monad\<close>

text \<open>
  The exceptions the program of \<^verbatim>\<open>src/fdtd1d.py\<close> can raise: a list subscript out of
  range and a float division by \<open>0.0\<close>. Any other behaviour of the interpreter (memory
  exhaustion, interruption) is outside the model.
\<close>

datatype py_error = IndexError | ZeroDivisionError

type_synonym 'a py_result = "py_error + 'a"

text \<open>
  Sequencing of two Python statements: when the first raises, the exception
  propagates and the second never runs.
\<close>

definition ebind :: "'e + 'a \<Rightarrow> ('a \<Rightarrow> 'e + 'b) \<Rightarrow> 'e + 'b" where
  "ebind r f = (case r of Inl e \<Rightarrow> Inl e | Inr x \<Rightarrow> f x)"

named_theorems py_simps "evaluation rules of the Python primitives on in-range arguments"
named_theorems fdtd_simps "pointwise equations of the field updates"

lemma ebind_Inl [simp]: "ebind (Inl e) f = Inl e"
  by (simp add: ebind_def)

lemma ebind_Inr [simp]: "ebind (Inr x) f = f x"
  by (simp add: ebind_def)

lemma ebind_eq_Inr:
  "ebind r f = Inr y \<longleftrightarrow> (\<exists>x. r = Inr x \<and> f x = Inr y)"
  by (cases r) (auto simp: ebind_def)

lemma ebind_eq_Inl:
  "ebind r f = Inl e \<longleftrightarrow> r = Inl e \<or> (\<exists>x. r = Inr x \<and> f x = Inl e)"
  by (cases r) (auto simp: ebind_def)

section \<open>Lists updated cell by cell\<close>

text \<open>
  A loop \<^verbatim>\<open>for m in range(k): xs[m] = f m (xs[m])\<close> whose body reads no other cell
  of \<open>xs\<close> computes, cell for cell, the map of \<open>f\<close> over the first \<open>k\<close> cells. This is
  the fact behind both field updates of the stepper.
\<close>

lemma fold_update_upt:
  assumes "k \<le> length xs"
  shows "fold (\<lambda>m ys. ys[m := f m (ys ! m)]) [0..<k] xs =
         map (\<lambda>m. if m < k then f m (xs ! m) else xs ! m) [0..<length xs]"
  using assms
proof (induction k)
  case 0
  show ?case by (simp add: map_nth)
next
  case (Suc k)
  then have IH: "fold (\<lambda>m ys. ys[m := f m (ys ! m)]) [0..<k] xs =
         map (\<lambda>m. if m < k then f m (xs ! m) else xs ! m) [0..<length xs]"
    by simp
  show ?case
    using Suc.prems by (intro nth_equalityI) (auto simp: IH nth_list_update)
qed

text \<open>
  The increment form used by both field updates (\<^verbatim>\<open>xs[m] = xs[m] + d(m)\<close>), stated
  so that the simplifier can match the loop's body.
\<close>

lemma fold_add_upt:
  "k \<le> length xs \<Longrightarrow> fold (\<lambda>m ys. ys[m := ys ! m + d m]) [0..<k] xs =
     map (\<lambda>m. if m < k then xs ! m + d m else xs ! m) [0..<length xs]"
  using fold_update_upt [where f = "\<lambda>m x. x + d m"] by simp

lemma fold_add_all:
  "fold (\<lambda>m ys. ys[m := ys ! m + d m]) [0..<length xs] xs =
   map (\<lambda>m. xs ! m + d m) [0..<length xs]"
  by (simp add: fold_add_upt)

text \<open>The cell before cell \<open>m\<close> of a ring of \<open>n\<close> cells, away from the wrap.\<close>

lemma ring_pred:
  assumes "0 < (m::nat)" and "m \<le> n"
  shows "(m + n - 1) mod n = m - 1"
proof -
  from assms obtain k where k: "m = Suc k" and "k < n"
    by (cases m) auto
  then show ?thesis by simp
qed

end
