(* ===== verification/PyList.thy ===== *)
theory PyList
  imports Prelude
begin

text \<open>
  The fragment of Python's list and number semantics that \<^verbatim>\<open>src/fdtd1d.py\<close> relies
  on: subscripting and subscript assignment with negative indices counted from the
  end and \<open>IndexError\<close> out of range, \<^verbatim>\<open>[x] * n\<close>, \<^verbatim>\<open>range(n)\<close>, true division
  of floats that raises \<open>ZeroDivisionError\<close> on a zero divisor, and a \<^verbatim>\<open>for\<close> loop
  that stops at the first exception. Floats are modelled as reals (see the header of
  \<open>Spec2Isabelle\<close>).
\<close>

section \<open>Subscripts\<close>

text \<open>Python reads \<^verbatim>\<open>xs[i]\<close> with \<open>i < 0\<close> as \<^verbatim>\<open>xs[len(xs) + i]\<close>.\<close>

definition py_norm :: "'a list \<Rightarrow> int \<Rightarrow> int" where
  "py_norm xs i = (if i < 0 then int (length xs) + i else i)"

definition py_get :: "'a list \<Rightarrow> int \<Rightarrow> 'a py_result" where
  "py_get xs i =
     (let j = py_norm xs i
      in if 0 \<le> j \<and> j < int (length xs) then Inr (xs ! nat j) else Inl IndexError)"

definition py_set :: "'a list \<Rightarrow> int \<Rightarrow> 'a \<Rightarrow> 'a list py_result" where
  "py_set xs i v =
     (let j = py_norm xs i
      in if 0 \<le> j \<and> j < int (length xs) then Inr (xs[nat j := v]) else Inl IndexError)"

section \<open>Construction, ranges, division, loops\<close>

text \<open>\<^verbatim>\<open>[x] * n\<close>: a negative count gives the empty list.\<close>

definition py_repeat :: "'a \<Rightarrow> int \<Rightarrow> 'a list" where
  "py_repeat x n = replicate (nat n) x"

text \<open>\<^verbatim>\<open>range(n)\<close>: \<open>0, 1, \<dots>, n - 1\<close>, empty when \<open>n \<le> 0\<close>.\<close>

definition py_range :: "int \<Rightarrow> int list" where
  "py_range n = map int [0..<nat n]"

text \<open>\<^verbatim>\<open>x / y\<close> on floats.\<close>

definition py_fdiv :: "real \<Rightarrow> real \<Rightarrow> real py_result" where
  "py_fdiv x y = (if y = 0 then Inl ZeroDivisionError else Inr (x / y))"

text \<open>\<^verbatim>\<open>for i in is: body\<close> over a state \<open>s\<close>; an exception in the body ends the loop.\<close>

fun py_for :: "(int \<Rightarrow> 's \<Rightarrow> 's py_result) \<Rightarrow> int list \<Rightarrow> 's \<Rightarrow> 's py_result" where
  "py_for f [] s = Inr s"
| "py_for f (i # is) s = ebind (f i s) (py_for f is)"

section \<open>Evaluation rules\<close>

lemma py_get_nat [py_simps]: "m < length xs \<Longrightarrow> py_get xs (int m) = Inr (xs ! m)"
  by (simp add: py_get_def py_norm_def)

lemma py_set_nat [py_simps]: "m < length xs \<Longrightarrow> py_set xs (int m) v = Inr (xs[m := v])"
  by (simp add: py_set_def py_norm_def)

lemma py_get_succ [py_simps]:
  "m + 1 < length xs \<Longrightarrow> py_get xs (int m + 1) = Inr (xs ! (m + 1))"
  using py_get_nat [of "m + 1" xs] by (simp add: add.commute)

text \<open>Subscripts written as literals in the source (\<^verbatim>\<open>ez[0]\<close>, \<^verbatim>\<open>ez[50]\<close>).\<close>

lemma py_get_zero [py_simps]: "xs \<noteq> [] \<Longrightarrow> py_get xs 0 = Inr (xs ! 0)"
  using py_get_nat [of 0 xs] by simp

lemma py_set_zero [py_simps]: "xs \<noteq> [] \<Longrightarrow> py_set xs 0 v = Inr (xs[0 := v])"
  using py_set_nat [of 0 xs] by simp

lemma py_get_one [py_simps]: "1 < length xs \<Longrightarrow> py_get xs 1 = Inr (xs ! 1)"
  using py_get_nat [of 1 xs] by simp

lemma py_get_numeral [py_simps]:
  "numeral k < length xs \<Longrightarrow> py_get xs (numeral k) = Inr (xs ! numeral k)"
  using py_get_nat [of "numeral k" xs] by simp

lemma py_set_numeral [py_simps]:
  "numeral k < length xs \<Longrightarrow> py_set xs (numeral k) v = Inr (xs[numeral k := v])"
  using py_set_nat [of "numeral k" xs] by simp

text \<open>Reading the cell before \<open>m\<close>: for \<open>m = 0\<close> this is the last cell.\<close>

lemma py_get_pred [py_simps]:
  assumes "m < length xs"
  shows "py_get xs (int m - 1) = Inr (xs ! ((m + length xs - 1) mod length xs))"
proof (cases m)
  case 0
  with assms show ?thesis
    by (simp add: py_get_def py_norm_def nat_diff_distrib')
next
  case (Suc k)
  with assms have "(m + length xs - 1) mod length xs = k"
    by simp
  with Suc assms show ?thesis
    by (simp add: py_get_def py_norm_def)
qed

lemma py_get_out [py_simps]: "int (length xs) \<le> i \<Longrightarrow> py_get xs i = Inl IndexError"
  by (simp add: py_get_def py_norm_def)

lemma py_set_out [py_simps]: "int (length xs) \<le> i \<Longrightarrow> py_set xs i v = Inl IndexError"
  by (simp add: py_set_def py_norm_def)

lemma py_fdiv_nonzero [py_simps]: "y \<noteq> 0 \<Longrightarrow> py_fdiv x y = Inr (x / y)"
  by (simp add: py_fdiv_def)

lemma py_fdiv_zero [py_simps]: "py_fdiv x 0 = Inl ZeroDivisionError"
  by (simp add: py_fdiv_def)

lemma py_range_nonpos [py_simps]: "n \<le> 0 \<Longrightarrow> py_range n = []"
  by (simp add: py_range_def)

lemma py_range_int [py_simps]: "py_range (int n) = map int [0..<n]"
  by (simp add: py_range_def)

lemma py_range_pred [py_simps]: "py_range (n - 1) = map int [0..<nat n - 1]"
proof -
  have "nat (n - 1) = nat n - 1" by arith
  then show ?thesis by (simp add: py_range_def)
qed

lemma length_py_repeat [simp]: "length (py_repeat x n) = nat n"
  by (simp add: py_repeat_def)

lemma nth_py_repeat [simp]: "m < nat n \<Longrightarrow> py_repeat x n ! m = x"
  by (simp add: py_repeat_def)

lemma py_for_append:
  "py_for f (xs @ ys) s = ebind (py_for f xs s) (py_for f ys)"
  by (induction xs arbitrary: s) (auto simp: ebind_def split: sum.splits)

text \<open>A field of the loop state that no pass of the body changes is unchanged by the loop.\<close>

lemma py_for_frame:
  assumes "\<And>i t t'. f i t = Inr t' \<Longrightarrow> g t' = g t"
  shows "py_for f is s = Inr s' \<Longrightarrow> g s' = g s"
proof (induction "is" arbitrary: s)
  case Nil
  then show ?case by simp
next
  case (Cons i "is")
  then obtain t where "f i s = Inr t" and "py_for f is t = Inr s'"
    by (auto simp: ebind_eq_Inr)
  with Cons.IH assms show ?case by metis
qed

lemma py_set_length:
  "py_set xs i v = Inr ys \<Longrightarrow> length ys = length xs"
  by (auto simp: py_set_def Let_def split: if_splits)

end
