(* ===== verification/Grid.thy ===== *)
theory Grid
  imports PyList
begin

text \<open>
  The state of the simulation (\<^verbatim>\<open>src/fdtd1d.py\<close>, lines 4--9): three module-level
  constants, here the fields of a configuration record so that the theorems speak of
  every grid size, impedance and step count, and the two field arrays \<^verbatim>\<open>ez\<close> and
  \<^verbatim>\<open>hy\<close>, allocated as \<^verbatim>\<open>[0.0] * SIZE\<close>. The well-formedness invariant says that
  both arrays have \<^verbatim>\<open>SIZE\<close> cells.
\<close>

record config =
  SIZE :: int
  imp0 :: real
  maxTime :: int

record fields =
  ez :: "real list"
  hy :: "real list"

text \<open>The number of cells, \<^verbatim>\<open>len(ez)\<close> of a freshly allocated grid.\<close>

abbreviation cells :: "config \<Rightarrow> nat" where
  "cells c \<equiv> nat (SIZE c)"

text \<open>Lines 6--7: \<^verbatim>\<open>ez = [0.0] * SIZE\<close>, \<^verbatim>\<open>hy = [0.0] * SIZE\<close>.\<close>

definition init_fields :: "config \<Rightarrow> fields" where
  "init_fields c = \<lparr>ez = py_repeat 0 (SIZE c), hy = py_repeat 0 (SIZE c)\<rparr>"

text \<open>Lines 4, 8, 9: the constants of the program as it is checked in.\<close>

definition program_config :: config where
  "program_config = \<lparr>SIZE = 200, imp0 = 377, maxTime = 250\<rparr>"

definition wf_fields :: "config \<Rightarrow> fields \<Rightarrow> bool" where
  "wf_fields c s \<longleftrightarrow> length (ez s) = cells c \<and> length (hy s) = cells c"

lemma wf_init_fields: "wf_fields c (init_fields c)"
  by (simp add: wf_fields_def init_fields_def)

lemma init_fields_zero [simp]:
  "m < cells c \<Longrightarrow> ez (init_fields c) ! m = 0"
  "m < cells c \<Longrightarrow> hy (init_fields c) ! m = 0"
  by (simp_all add: init_fields_def)

lemma length_init_fields [simp]:
  "length (ez (init_fields c)) = cells c"
  "length (hy (init_fields c)) = cells c"
  by (simp_all add: init_fields_def)

lemma program_config_simps [simp]:
  "SIZE program_config = 200" "imp0 program_config = 377" "maxTime program_config = 250"
  by (simp_all add: program_config_def)

end
