(* ===== verification/Update.thy ===== *)
theory Update
  imports Grid
begin

text \<open>
  The two field updates of one time step (\<^verbatim>\<open>src/fdtd1d.py\<close>, lines 14--20), each an
  in-place \<^verbatim>\<open>for\<close> loop over the cells, modelled statement by statement with Python's
  subscript semantics (\<open>hy_body\<close>, \<open>ez_body\<close>, \<open>update_hy\<close>, \<open>update_ez\<close>). Beside
  them, the whole-array form of the same update equations (\<open>hy_next\<close>, \<open>ez_next\<close>):
  every cell of the new array computed from the old arrays. The main lemmas show that
  the loops compute exactly the whole-array form, that the magnetic loop can raise only
  \<open>ZeroDivisionError\<close> and the electric loop nothing on a well-formed grid, and that the
  magnetic loop writes neither \<^verbatim>\<open>ez\<close> nor the last cell of \<^verbatim>\<open>hy\<close>.
\<close>

section \<open>The loops as written\<close>

text \<open>Line 16: \<^verbatim>\<open>hy[mm] = hy[mm] + (ez[mm + 1] - ez[mm]) / imp0\<close>.\<close>

definition hy_body :: "config \<Rightarrow> int \<Rightarrow> fields \<Rightarrow> fields py_result" where
  "hy_body c mm s =
     ebind (py_get (hy s) mm) (\<lambda>h.
     ebind (py_get (ez s) (mm + 1)) (\<lambda>e1.
     ebind (py_get (ez s) mm) (\<lambda>e0.
     ebind (py_fdiv (e1 - e0) (imp0 c)) (\<lambda>d.
     ebind (py_set (hy s) mm (h + d)) (\<lambda>hy'.
     Inr (s\<lparr>hy := hy'\<rparr>))))))"

text \<open>Line 15: \<^verbatim>\<open>for mm in range(SIZE-1)\<close>.\<close>

definition update_hy :: "config \<Rightarrow> fields \<Rightarrow> fields py_result" where
  "update_hy c s = py_for (hy_body c) (py_range (SIZE c - 1)) s"

text \<open>Line 20: \<^verbatim>\<open>ez[mm] = ez[mm] + (hy[mm] - hy[mm - 1]) * imp0\<close>.\<close>

definition ez_body :: "config \<Rightarrow> int \<Rightarrow> fields \<Rightarrow> fields py_result" where
  "ez_body c mm s =
     ebind (py_get (ez s) mm) (\<lambda>e.
     ebind (py_get (hy s) mm) (\<lambda>h1.
     ebind (py_get (hy s) (mm - 1)) (\<lambda>h0.
     ebind (py_set (ez s) mm (e + (h1 - h0) * imp0 c)) (\<lambda>ez'.
     Inr (s\<lparr>ez := ez'\<rparr>)))))"

text \<open>Line 19: \<^verbatim>\<open>for mm in range(SIZE)\<close>.\<close>

definition update_ez :: "config \<Rightarrow> fields \<Rightarrow> fields py_result" where
  "update_ez c s = py_for (ez_body c) (py_range (SIZE c)) s"

section \<open>The update equations on whole arrays\<close>

text \<open>
  The magnetic update: every cell but the last moves by the forward difference of the
  old electric field; the last cell keeps its value.
\<close>

definition hy_next :: "real \<Rightarrow> real list \<Rightarrow> real list \<Rightarrow> real list" where
  "hy_next imp e h =
     map (\<lambda>m. if m + 1 < length h then h ! m + (e ! (m + 1) - e ! m) / imp else h ! m)
         [0..<length h]"

text \<open>
  The electric update: every cell moves by the backward difference of the (new)
  magnetic field, the cell before cell \<open>0\<close> being the last cell, as \<^verbatim>\<open>hy[-1]\<close>
  reads it.
\<close>

definition ez_next :: "real \<Rightarrow> real list \<Rightarrow> real list \<Rightarrow> real list" where
  "ez_next imp e h =
     map (\<lambda>m. e ! m + (h ! m - h ! ((m + length h - 1) mod length h)) * imp)
         [0..<length e]"

text \<open>
  The same electric update with a zero magnetic field before cell \<open>0\<close> instead of the
  wrap-around: the boundary the code would have without the negative subscript.
\<close>

definition ez_next_zero :: "real \<Rightarrow> real list \<Rightarrow> real list \<Rightarrow> real list" where
  "ez_next_zero imp e h =
     map (\<lambda>m. e ! m + (h ! m - (if m = 0 then 0 else h ! (m - 1))) * imp)
         [0..<length e]"

lemma length_hy_next [simp]: "length (hy_next imp e h) = length h"
  by (simp add: hy_next_def)

lemma length_ez_next [simp]: "length (ez_next imp e h) = length e"
  by (simp add: ez_next_def)

lemma nth_hy_next [fdtd_simps]:
  "m < length h \<Longrightarrow> hy_next imp e h ! m =
     (if m + 1 < length h then h ! m + (e ! (m + 1) - e ! m) / imp else h ! m)"
  by (simp add: hy_next_def)

lemma nth_ez_next [fdtd_simps]:
  "m < length e \<Longrightarrow> 0 < m \<Longrightarrow> m \<le> length h \<Longrightarrow>
     ez_next imp e h ! m = e ! m + (h ! m - h ! (m - 1)) * imp"
  using ring_pred [of m "length h"] by (simp add: ez_next_def)

section \<open>The loops compute the whole-array updates\<close>

text \<open>One pass of the magnetic loop body, at an in-range cell.\<close>

lemma hy_body_cell:
  assumes "j + 1 < length (ez s)" and "j < length (hy s)" and "imp0 c \<noteq> 0"
  shows "hy_body c (int j) s =
    Inr (s\<lparr>hy := (hy s)[j := hy s ! j + (ez s ! (j + 1) - ez s ! j) / imp0 c]\<rparr>)"
  using assms by (simp add: hy_body_def py_simps)

lemma ez_body_cell:
  assumes "j < length (ez s)" and "j < length (hy s)"
  shows "ez_body c (int j) s =
    Inr (s\<lparr>ez := (ez s)[j := ez s ! j +
           (hy s ! j - hy s ! ((j + length (hy s) - 1) mod length (hy s))) * imp0 c]\<rparr>)"
  using assms by (simp add: ez_body_def py_simps)

text \<open>
  The loops over any list of in-range cells: the body reads only the cell it writes
  of the array it writes, so the loop is a fold of cell updates whose increments are
  computed from the array it does not write.
\<close>

lemma py_for_hy_body:
  assumes "\<forall>j \<in> set js. j + 1 < length (ez s)" and "length (hy s) = length (ez s)"
    and "imp0 c \<noteq> 0"
  shows "py_for (hy_body c) (map int js) s =
    Inr (s\<lparr>hy := fold (\<lambda>m h. h[m := h ! m + (ez s ! (m + 1) - ez s ! m) / imp0 c])
                       js (hy s)\<rparr>)"
  using assms
proof (induction js arbitrary: s)
  case Nil
  show ?case by simp
next
  case (Cons j js)
  let ?s' = "s\<lparr>hy := (hy s)[j := hy s ! j + (ez s ! (j + 1) - ez s ! j) / imp0 c]\<rparr>"
  from Cons.prems have "hy_body c (int j) s = Inr ?s'"
    by (intro hy_body_cell) auto
  moreover from Cons.prems have "py_for (hy_body c) (map int js) ?s' =
      Inr (?s'\<lparr>hy := fold (\<lambda>m h. h[m := h ! m + (ez s ! (m + 1) - ez s ! m) / imp0 c])
                         js (hy ?s')\<rparr>)"
    using Cons.IH [of ?s'] by simp
  ultimately show ?case by simp
qed

lemma py_for_ez_body:
  assumes "\<forall>j \<in> set js. j < length (ez s)" and "length (hy s) = length (ez s)"
  shows "py_for (ez_body c) (map int js) s =
    Inr (s\<lparr>ez := fold (\<lambda>m e. e[m := e ! m +
             (hy s ! m - hy s ! ((m + length (hy s) - 1) mod length (hy s))) * imp0 c])
           js (ez s)\<rparr>)"
  using assms
proof (induction js arbitrary: s)
  case Nil
  show ?case by simp
next
  case (Cons j js)
  let ?s' = "s\<lparr>ez := (ez s)[j := ez s ! j +
           (hy s ! j - hy s ! ((j + length (hy s) - 1) mod length (hy s))) * imp0 c]\<rparr>"
  from Cons.prems have "ez_body c (int j) s = Inr ?s'"
    by (intro ez_body_cell) auto
  moreover from Cons.prems have "py_for (ez_body c) (map int js) ?s' =
      Inr (?s'\<lparr>ez := fold (\<lambda>m e. e[m := e ! m +
             (hy s ! m - hy s ! ((m + length (hy s) - 1) mod length (hy s))) * imp0 c])
           js (ez ?s')\<rparr>)"
    using Cons.IH [of ?s'] by simp
  ultimately show ?case by simp
qed

lemma hy_body_ez: "hy_body c mm s = Inr t \<Longrightarrow> ez t = ez s"
  by (auto simp: hy_body_def ebind_eq_Inr)

lemma ez_body_hy: "ez_body c mm s = Inr t \<Longrightarrow> hy t = hy s"
  by (auto simp: ez_body_def ebind_eq_Inr)

lemma hy_next_short: "length h \<le> 1 \<Longrightarrow> hy_next imp e h = h"
  by (simp add: hy_next_def map_nth)

text \<open>
  The magnetic loop on a well-formed grid: it raises \<open>ZeroDivisionError\<close> exactly when
  \<^verbatim>\<open>imp0\<close> is zero and the loop runs at least once, and otherwise computes the
  whole-array update \<open>hy_next\<close> from the old electric field.
\<close>

lemma update_hy_eq:
  assumes "wf_fields c s"
  shows "update_hy c s =
    (if imp0 c = 0 \<and> 2 \<le> SIZE c then Inl ZeroDivisionError
     else Inr (s\<lparr>hy := hy_next (imp0 c) (ez s) (hy s)\<rparr>))"
proof (cases "SIZE c \<le> 1")
  case True
  with assms have "length (hy s) \<le> 1"
    by (simp add: wf_fields_def)
  with True show ?thesis
    by (simp add: update_hy_def py_simps hy_next_short)
next
  case False
  then have range: "py_range (SIZE c - 1) = map int [0..<cells c - 1]"
    by (simp add: py_simps)
  show ?thesis
  proof (cases "imp0 c = 0")
    case True
    from False have "[0..<cells c - 1] = 0 # [1..<cells c - 1]"
      by (simp add: upt_rec)
    moreover from False assms have "1 < length (ez s)" "ez s \<noteq> []" "hy s \<noteq> []"
      by (auto simp: wf_fields_def)
    ultimately show ?thesis using False True
      by (simp add: update_hy_def range hy_body_def py_simps wf_fields_def)
  next
    case nz: False
    from assms have inr: "\<forall>j \<in> set [0..<cells c - 1]. j + 1 < length (ez s)"
      and len: "length (hy s) = length (ez s)" "cells c - 1 \<le> length (hy s)"
      by (auto simp: wf_fields_def)
    from inr len(1) nz have "update_hy c s =
      Inr (s\<lparr>hy := fold (\<lambda>m h. h[m := h ! m + (ez s ! (m + 1) - ez s ! m) / imp0 c])
                       [0..<cells c - 1] (hy s)\<rparr>)"
      unfolding update_hy_def range by (rule py_for_hy_body)
    also have "\<dots> = Inr (s\<lparr>hy := hy_next (imp0 c) (ez s) (hy s)\<rparr>)"
      using assms len by (auto simp: fold_add_upt hy_next_def wf_fields_def less_diff_conv)
    finally show ?thesis using nz by simp
  qed
qed

text \<open>
  The electric loop on a well-formed grid never raises and computes the whole-array
  update \<open>ez_next\<close>, reading \<^verbatim>\<open>hy[-1]\<close> as the last cell.
\<close>

lemma update_ez_eq:
  assumes "wf_fields c s"
  shows "update_ez c s = Inr (s\<lparr>ez := ez_next (imp0 c) (ez s) (hy s)\<rparr>)"
proof -
  from assms have len: "length (hy s) = length (ez s)" "length (ez s) = cells c"
    by (simp_all add: wf_fields_def)
  have "py_range (SIZE c) = map int [0..<length (ez s)]"
    using len by (simp add: py_range_def)
  with len have "update_ez c s =
    Inr (s\<lparr>ez := fold (\<lambda>m e. e[m := e ! m +
             (hy s ! m - hy s ! ((m + length (hy s) - 1) mod length (hy s))) * imp0 c])
           [0..<length (ez s)] (ez s)\<rparr>)"
    unfolding update_ez_def by (simp add: py_for_ez_body)
  also have "\<dots> = Inr (s\<lparr>ez := ez_next (imp0 c) (ez s) (hy s)\<rparr>)"
    by (simp add: fold_add_all ez_next_def)
  finally show ?thesis .
qed

section \<open>Properties of the field updates\<close>

text \<open>
  C4. The in-place magnetic loop of lines 15--16, run on a well-formed grid, equals the
  whole-array update \<open>hy_next\<close> computed from the old electric field; it raises
  \<open>ZeroDivisionError\<close> exactly when \<^verbatim>\<open>imp0\<close> is zero and the loop body runs.
\<close>

theorem update_hy_spec:
  assumes "wf_fields c s"
  shows "update_hy c s =
    (if imp0 c = 0 \<and> 2 \<le> SIZE c then Inl ZeroDivisionError
     else Inr (s\<lparr>hy := hy_next (imp0 c) (ez s) (hy s)\<rparr>))"
  using assms by (rule update_hy_eq)

theorem update_hy_spec_witness:
  "wf_fields \<lparr>SIZE = 3, imp0 = 2, maxTime = 1\<rparr> \<lparr>ez = [1, 2, 4], hy = [0, 0, 0]\<rparr> \<and>
   update_hy \<lparr>SIZE = 3, imp0 = 2, maxTime = 1\<rparr> \<lparr>ez = [1, 2, 4], hy = [0, 0, 0]\<rparr> =
     Inr \<lparr>ez = [1, 2, 4], hy = [1 / 2, 1, 0]\<rparr>"
  using update_hy_spec [of "\<lparr>SIZE = 3, imp0 = 2, maxTime = 1\<rparr>" "\<lparr>ez = [1, 2, 4], hy = [0, 0, 0]\<rparr>"]
  by (simp add: wf_fields_def hy_next_def upt_rec)

text \<open>
  C5. The in-place electric loop of lines 19--20, run on a well-formed grid, never
  raises and equals the whole-array update \<open>ez_next\<close>, in which \<^verbatim>\<open>hy[mm - 1]\<close>
  at \<open>mm = 0\<close> reads the last magnetic cell.
\<close>

theorem update_ez_spec:
  assumes "wf_fields c s"
  shows "update_ez c s = Inr (s\<lparr>ez := ez_next (imp0 c) (ez s) (hy s)\<rparr>)"
  using assms by (rule update_ez_eq)

theorem update_ez_spec_witness:
  "wf_fields \<lparr>SIZE = 3, imp0 = 2, maxTime = 1\<rparr> \<lparr>ez = [1, 2, 4], hy = [1, 3, 5]\<rparr> \<and>
   update_ez \<lparr>SIZE = 3, imp0 = 2, maxTime = 1\<rparr> \<lparr>ez = [1, 2, 4], hy = [1, 3, 5]\<rparr> =
     Inr \<lparr>ez = [-7, 6, 8], hy = [1, 3, 5]\<rparr>"
  using update_ez_spec [of "\<lparr>SIZE = 3, imp0 = 2, maxTime = 1\<rparr>" "\<lparr>ez = [1, 2, 4], hy = [1, 3, 5]\<rparr>"]
  by (simp add: wf_fields_def ez_next_def upt_rec)

text \<open>
  C22. Frame of the two loops, on any state: the magnetic loop never writes \<^verbatim>\<open>ez\<close>
  and the electric loop never writes \<^verbatim>\<open>hy\<close>. Together with C4 and C5 this is the
  update order of the leapfrog scheme: all of \<^verbatim>\<open>hy\<close> is computed from the old
  \<^verbatim>\<open>ez\<close>, then all of \<^verbatim>\<open>ez\<close> from the new \<^verbatim>\<open>hy\<close>.
\<close>

theorem update_frame:
  "(update_hy c s = Inr s1 \<longrightarrow> ez s1 = ez s) \<and> (update_ez c s = Inr s2 \<longrightarrow> hy s2 = hy s)"
  using py_for_frame [of "hy_body c" ez, OF hy_body_ez] py_for_frame [of "ez_body c" hy, OF ez_body_hy]
  by (auto simp: update_hy_def update_ez_def)

theorem update_frame_witness:
  "update_hy \<lparr>SIZE = 3, imp0 = 2, maxTime = 1\<rparr> \<lparr>ez = [1, 2, 4], hy = [0, 0, 0]\<rparr> =
     Inr \<lparr>ez = [1, 2, 4], hy = [1 / 2, 1, 0]\<rparr> \<and>
   update_ez \<lparr>SIZE = 3, imp0 = 2, maxTime = 1\<rparr> \<lparr>ez = [1, 2, 4], hy = [1, 3, 5]\<rparr> =
     Inr \<lparr>ez = [-7, 6, 8], hy = [1, 3, 5]\<rparr> \<and>
   ez \<lparr>ez = [1, 2, 4], hy = [1 / 2, 1, 0 :: real]\<rparr> = ez \<lparr>ez = [1, 2, 4], hy = [0, 0, 0 :: real]\<rparr> \<and>
   hy \<lparr>ez = [-7, 6, 8], hy = [1, 3, 5 :: real]\<rparr> = hy \<lparr>ez = [1, 2, 4], hy = [1, 3, 5 :: real]\<rparr>"
proof -
  have h: "update_hy \<lparr>SIZE = 3, imp0 = 2, maxTime = 1\<rparr> \<lparr>ez = [1, 2, 4], hy = [0, 0, 0]\<rparr> =
     Inr \<lparr>ez = [1, 2, 4], hy = [1 / 2, 1, 0]\<rparr>"
    by (simp add: update_hy_def hy_body_def py_range_def py_get_def py_set_def py_norm_def
        py_fdiv_def upt_rec)
  have e: "update_ez \<lparr>SIZE = 3, imp0 = 2, maxTime = 1\<rparr> \<lparr>ez = [1, 2, 4], hy = [1, 3, 5]\<rparr> =
     Inr \<lparr>ez = [-7, 6, 8], hy = [1, 3, 5]\<rparr>"
    by (simp add: update_ez_def ez_body_def py_range_def py_get_def py_set_def py_norm_def upt_rec)
  from update_frame [of "\<lparr>SIZE = 3, imp0 = 2, maxTime = 1\<rparr>" "\<lparr>ez = [1, 2, 4], hy = [0, 0, 0]\<rparr>"
      "\<lparr>ez = [1, 2, 4], hy = [1 / 2, 1, 0]\<rparr>"]
    update_frame [of "\<lparr>SIZE = 3, imp0 = 2, maxTime = 1\<rparr>" "\<lparr>ez = [1, 2, 4], hy = [1, 3, 5]\<rparr>" _
      "\<lparr>ez = [-7, 6, 8], hy = [1, 3, 5]\<rparr>"] h e
  show ?thesis by simp
qed

end
