(* ===== verification/Source.thy ===== *)
theory Source
  imports Prelude
begin

text \<open>
  The hard source of \<^verbatim>\<open>src/fdtd1d.py\<close>, line 23: the value written into \<^verbatim>\<open>ez[0]\<close>
  after the electric update of step \<^verbatim>\<open>qTime\<close>, a Gaussian pulse centred at step 30.
  The exponent is computed as in Python 3: \<^verbatim>\<open>-(qTime - 30) * (qTime - 30)\<close> is an
  exact integer and \<^verbatim>\<open>/ 100\<close> is true division. The lemmas bound the pulse, locate
  its peak and show its symmetry and monotonicity around the peak.
\<close>

definition source :: "int \<Rightarrow> real" where
  "source qTime = exp (real_of_int (- (qTime - 30) * (qTime - 30)) / 100)"

lemma source_exponent_nonpos: "real_of_int (- (q - 30) * (q - 30)) / 100 \<le> 0"
proof -
  have "0 \<le> (q - 30) * (q - 30)" by simp
  then have "real_of_int (- (q - 30) * (q - 30)) \<le> 0"
    by (simp only: of_int_le_0_iff mult_minus_left neg_le_0_iff_le)
  then show ?thesis by (simp add: divide_nonpos_pos)
qed

lemma source_exponent_mono:
  assumes "\<bar>q - 30\<bar> \<le> \<bar>q' - 30\<bar>"
  shows "real_of_int (- (q' - 30) * (q' - 30)) / 100 \<le> real_of_int (- (q - 30) * (q - 30)) / 100"
proof -
  have "(q - 30) * (q - 30) \<le> (q' - 30) * (q' - 30)"
    using assms by (metis abs_mult_self_eq abs_ge_zero mult_mono)
  then have "real_of_int (- (q' - 30) * (q' - 30)) \<le> real_of_int (- (q - 30) * (q - 30))"
    by (simp only: of_int_le_iff mult_minus_left neg_le_iff_le)
  then show ?thesis by (simp add: divide_right_mono)
qed

lemma source_pos: "0 < source q"
  by (simp add: source_def)

lemma source_le_one: "source q \<le> 1"
  using source_exponent_nonpos [of q] by (simp add: source_def)

text \<open>Nearer to step 30 means a larger value.\<close>

lemma source_antimono:
  "\<bar>q - 30\<bar> \<le> \<bar>q' - 30\<bar> \<Longrightarrow> source q' \<le> source q"
  using source_exponent_mono by (simp add: source_def)

lemma source_eq_one_iff: "source q = 1 \<longleftrightarrow> q = 30"
proof -
  have "source q = 1 \<longleftrightarrow> real_of_int (- (q - 30) * (q - 30)) / 100 = 0"
    by (simp add: source_def)
  also have "\<dots> \<longleftrightarrow> q = 30"
    by simp
  finally show ?thesis .
qed

section \<open>Properties of the source\<close>

text \<open>C18. The pulse reaches \<open>1\<close> at step 30 and at no other step.\<close>

theorem source_peak: "source q = 1 \<longleftrightarrow> q = 30"
  by (rule source_eq_one_iff)

theorem source_peak_witness: "source 30 = 1 \<and> source 31 \<noteq> 1"
  using source_peak [of 30] source_peak [of 31] by simp

text \<open>C19. The pulse is symmetric about step 30.\<close>

theorem source_symmetric: "source (30 + d) = source (30 - d)"
  by (simp add: source_def)

text \<open>C20. The pulse decreases with the distance from step 30.\<close>

theorem source_mono:
  assumes "\<bar>q - 30\<bar> \<le> \<bar>q' - 30\<bar>"
  shows "source q' \<le> source q"
  using assms by (rule source_antimono)

theorem source_mono_witness: "\<bar>(35::int) - 30\<bar> \<le> \<bar>(20::int) - 30\<bar> \<and> source 20 \<le> source 35"
  using source_mono [of 35 20] by simp

end
