(* ===== verification/Stepper.thy ===== *)
theory Stepper
  imports Update Source
begin

text \<open>
  One time step and the driver loop of \<^verbatim>\<open>src/fdtd1d.py\<close> (lines 11--25). \<open>step\<close>
  runs the magnetic loop, the electric loop, the hard source and the observation
  \<^verbatim>\<open>print(ez[50])\<close> in the order of the code; \<open>run_loop\<close> is the
  \<^verbatim>\<open>for qTime in range(maxTime)\<close> loop, collecting the printed values and stopping
  at the first exception, and \<open>run\<close> starts it from the allocated grid.
  \<open>leapfrog\<close> is the abstract step, the update equations on whole arrays, and
  \<open>fields_at c k\<close> the fields after \<open>k\<close> abstract steps. \<open>reach c k s\<close> is the
  step relation of the program: \<open>s\<close> is the state of the grid after \<open>k\<close> completed
  iterations of the driver. The lemmas show that \<open>step\<close> refines \<open>leapfrog\<close> on every
  branch, that every reachable state is well formed and keeps the last magnetic cell
  at zero, and what \<open>run\<close> prints and raises for every configuration.
\<close>

section \<open>The step and the driver as written\<close>

definition step :: "config \<Rightarrow> int \<Rightarrow> fields \<Rightarrow> (fields \<times> real) py_result" where
  "step c qTime s =
     ebind (update_hy c s) (\<lambda>s1.
     ebind (update_ez c s1) (\<lambda>s2.
     ebind (py_set (ez s2) 0 (source qTime)) (\<lambda>ez3.
     ebind (py_get ez3 50) (\<lambda>v.
     Inr (s2\<lparr>ez := ez3\<rparr>, v)))))"

fun run_loop :: "config \<Rightarrow> int list \<Rightarrow> fields \<Rightarrow> real list \<times> fields py_result" where
  "run_loop c [] s = ([], Inr s)"
| "run_loop c (qTime # qs) s =
     (case step c qTime s of
        Inl e \<Rightarrow> ([], Inl e)
      | Inr (s', v) \<Rightarrow> (let (out, r) = run_loop c qs s' in (v # out, r)))"

definition run :: "config \<Rightarrow> real list \<times> fields py_result" where
  "run c = run_loop c (py_range (maxTime c)) (init_fields c)"

section \<open>The abstract step\<close>

definition leapfrog :: "config \<Rightarrow> int \<Rightarrow> fields \<Rightarrow> fields" where
  "leapfrog c qTime s =
     (let h' = hy_next (imp0 c) (ez s) (hy s);
          e' = ez_next (imp0 c) (ez s) h'
      in s\<lparr>hy := h', ez := e'[0 := source qTime]\<rparr>)"

primrec fields_at :: "config \<Rightarrow> nat \<Rightarrow> fields" where
  "fields_at c 0 = init_fields c"
| "fields_at c (Suc k) = leapfrog c (int k) (fields_at c k)"

section \<open>Reachable states\<close>

inductive reach :: "config \<Rightarrow> nat \<Rightarrow> fields \<Rightarrow> bool" for c :: config where
  reach_init: "reach c 0 (init_fields c)"
| reach_step: "reach c k s \<Longrightarrow> int k < maxTime c \<Longrightarrow> step c (int k) s = Inr (s', v) \<Longrightarrow>
    reach c (Suc k) s'"

inductive_cases reach_SucE: "reach c (Suc k) s'"

section \<open>The step refines the abstract step\<close>

lemma length_leapfrog [simp]:
  "length (ez (leapfrog c q s)) = length (ez s)"
  "length (hy (leapfrog c q s)) = length (hy s)"
  by (simp_all add: leapfrog_def Let_def)

lemma wf_leapfrog: "wf_fields c s \<Longrightarrow> wf_fields c (leapfrog c q s)"
  by (simp add: wf_fields_def)

lemma wf_fields_at: "wf_fields c (fields_at c k)"
  by (induction k) (simp_all add: wf_init_fields wf_leapfrog)

text \<open>
  One step on a well-formed grid, on every branch: \<open>ZeroDivisionError\<close> from the
  magnetic loop when \<^verbatim>\<open>imp0\<close> is zero, \<open>IndexError\<close> from \<^verbatim>\<open>ez[0] = \<dots>\<close> or
  \<^verbatim>\<open>print(ez[50])\<close> on a grid of at most 50 cells, and otherwise the abstract
  leapfrog step and its cell 50.
\<close>

lemma step_eq:
  assumes "wf_fields c s"
  shows "step c q s =
    (if imp0 c = 0 \<and> 2 \<le> SIZE c then Inl ZeroDivisionError
     else if SIZE c \<le> 50 then Inl IndexError
     else Inr (leapfrog c q s, ez (leapfrog c q s) ! 50))"
proof (cases "imp0 c = 0 \<and> 2 \<le> SIZE c")
  case True
  with assms show ?thesis by (simp add: step_def update_hy_eq)
next
  case ok: False
  let ?h = "hy_next (imp0 c) (ez s) (hy s)"
  let ?s2 = "s\<lparr>hy := ?h, ez := ez_next (imp0 c) (ez s) ?h\<rparr>"
  from assms have "wf_fields c (s\<lparr>hy := ?h\<rparr>)"
    by (simp add: wf_fields_def)
  moreover have "update_hy c s = Inr (s\<lparr>hy := ?h\<rparr>)"
    by (simp only: update_hy_eq [OF assms] if_not_P [OF ok])
  ultimately have unfold: "step c q s =
    ebind (py_set (ez ?s2) 0 (source q)) (\<lambda>ez3. ebind (py_get ez3 50) (\<lambda>v. Inr (?s2\<lparr>ez := ez3\<rparr>, v)))"
    by (simp add: step_def update_ez_eq)
  from assms have len: "length (ez ?s2) = cells c"
    by (simp add: wf_fields_def)
  show ?thesis
  proof (cases "SIZE c \<le> 50")
    case small: True
    have "ebind (py_set (ez ?s2) 0 (source q))
      (\<lambda>ez3. ebind (py_get ez3 50) (\<lambda>v. Inr (?s2\<lparr>ez := ez3\<rparr>, v))) = Inl IndexError"
    proof (cases "SIZE c \<le> 0")
      case True
      with len have "py_set (ez ?s2) 0 (source q) = Inl IndexError"
        by (simp add: py_set_out)
      then show ?thesis by simp
    next
      case False
      with len have "0 < length (ez ?s2)" by simp
      then have "ez ?s2 \<noteq> []" by (rule length_greater_0_conv [THEN iffD1])
      then have "py_set (ez ?s2) 0 (source q) = Inr ((ez ?s2)[0 := source q])"
        by (rule py_set_zero)
      moreover from small len have "py_get ((ez ?s2)[0 := source q]) 50 = Inl IndexError"
        by (simp add: py_get_out)
      ultimately show ?thesis by simp
    qed
    with ok small show ?thesis by (simp add: unfold)
  next
    case False
    with len have "0 < length (ez ?s2)" and "50 < length ((ez ?s2)[0 := source q])"
      by simp_all
    from this(1) have "ez ?s2 \<noteq> []" by (rule length_greater_0_conv [THEN iffD1])
    with \<open>50 < length ((ez ?s2)[0 := source q])\<close> ok False show ?thesis
      by (simp add: unfold py_simps leapfrog_def Let_def)
  qed
qed

lemma step_Inr:
  assumes "wf_fields c s" and "step c q s = Inr (s', v)"
  shows "s' = leapfrog c q s \<and> v = ez s' ! 50"
  using assms by (auto simp: step_eq split: if_splits)

lemma step_fields_at:
  assumes "imp0 c \<noteq> 0" and "50 < SIZE c"
  shows "step c (int k) (fields_at c k) =
    Inr (fields_at c (Suc k), ez (fields_at c (Suc k)) ! 50)"
  using assms by (simp add: step_eq wf_fields_at)

lemma hy_leapfrog [fdtd_simps]:
  "wf_fields c s \<Longrightarrow> m < cells c \<Longrightarrow> hy (leapfrog c q s) ! m =
    (if m + 1 < cells c then hy s ! m + (ez s ! (m + 1) - ez s ! m) / imp0 c else hy s ! m)"
  by (simp add: leapfrog_def Let_def wf_fields_def fdtd_simps)

lemma ez_leapfrog_0 [fdtd_simps]:
  "wf_fields c s \<Longrightarrow> 0 < cells c \<Longrightarrow> ez (leapfrog c q s) ! 0 = source q"
  by (simp add: leapfrog_def Let_def wf_fields_def)

lemma ez_leapfrog [fdtd_simps]:
  "wf_fields c s \<Longrightarrow> 0 < m \<Longrightarrow> m < cells c \<Longrightarrow> ez (leapfrog c q s) ! m =
    ez s ! m + (hy (leapfrog c q s) ! m - hy (leapfrog c q s) ! (m - 1)) * imp0 c"
  by (simp add: leapfrog_def Let_def wf_fields_def fdtd_simps)

lemma hy_last_leapfrog:
  "0 < length (hy s) \<Longrightarrow> hy (leapfrog c q s) ! (length (hy s) - 1) = hy s ! (length (hy s) - 1)"
  by (simp add: leapfrog_def Let_def fdtd_simps)

section \<open>Invariants of the reachable states\<close>

text \<open>Both field arrays keep \<^verbatim>\<open>SIZE\<close> cells in every reachable state.\<close>

lemma reach_wf_fields: "reach c k s \<Longrightarrow> wf_fields c s"
proof (induction rule: reach.induct)
  case reach_init
  show ?case by (rule wf_init_fields)
next
  case (reach_step k s s' v)
  then have "s' = leapfrog c (int k) s" by (simp add: step_Inr)
  with reach_step.IH show ?case by (simp add: wf_leapfrog)
qed

lemma reach_is_fields_at: "reach c k s \<Longrightarrow> s = fields_at c k"
proof (induction rule: reach.induct)
  case reach_init
  show ?case by simp
next
  case (reach_step k s s' v)
  then show ?case using reach_wf_fields by (simp add: step_Inr)
qed

text \<open>Conversely every abstract state up to \<^verbatim>\<open>maxTime\<close> is reached.\<close>

lemma fields_at_reach:
  assumes "imp0 c \<noteq> 0" and "50 < SIZE c" and "int k \<le> maxTime c"
  shows "reach c k (fields_at c k)"
  using assms(3)
proof (induction k)
  case 0
  show ?case by (simp add: reach_init)
next
  case (Suc k)
  then have "reach c k (fields_at c k)" and "int k < maxTime c" by simp_all
  then show ?case
    using step_fields_at [OF assms(1,2)] by (rule reach_step)
qed

section \<open>What the program prints\<close>

lemma run_loop_length:
  "run_loop c qs s = (out, Inr s') \<Longrightarrow> length out = length qs"
proof (induction qs arbitrary: s out)
  case Nil
  then show ?case by simp
next
  case (Cons q qs)
  then show ?case
    by (auto split: sum.splits prod.splits)
qed

lemma run_loop_fields_at:
  assumes "imp0 c \<noteq> 0" and "50 < SIZE c"
  shows "run_loop c (map int [k..<k + n]) (fields_at c k) =
    (map (\<lambda>q. ez (fields_at c (Suc q)) ! 50) [k..<k + n], Inr (fields_at c (k + n)))"
proof (induction n arbitrary: k)
  case 0
  show ?case by simp
next
  case (Suc n)
  have "[k..<k + Suc n] = k # [Suc k..<Suc k + n]"
    by (simp add: upt_rec)
  with Suc.IH [of "Suc k"] show ?case
    by (simp add: step_fields_at [OF assms])
qed

text \<open>
  With a non-zero impedance and more than 50 cells the program runs to completion
  and prints, at step \<open>q\<close>, cell 50 of the abstract state after \<open>q + 1\<close> steps.
\<close>

lemma run_eq:
  assumes "imp0 c \<noteq> 0" and "50 < SIZE c"
  shows "run c = (map (\<lambda>q. ez (fields_at c (Suc q)) ! 50) [0..<nat (maxTime c)],
                  Inr (fields_at c (nat (maxTime c))))"
  using run_loop_fields_at [OF assms, of 0 "nat (maxTime c)"]
  by (simp add: run_def py_range_def)

section \<open>Properties of the stepper and the driver\<close>

text \<open>
  C3. One step of the program (lines 13--25) on a well-formed grid refines the
  abstract leapfrog step on every branch: it raises \<open>ZeroDivisionError\<close> when
  \<^verbatim>\<open>imp0\<close> is zero and the magnetic loop runs, \<open>IndexError\<close> when the grid has at
  most 50 cells, and otherwise yields the abstract next state and its cell 50.
\<close>

theorem step_spec:
  assumes "wf_fields c s"
  shows "step c q s =
    (if imp0 c = 0 \<and> 2 \<le> SIZE c then Inl ZeroDivisionError
     else if SIZE c \<le> 50 then Inl IndexError
     else Inr (leapfrog c q s, ez (leapfrog c q s) ! 50))"
  using assms by (rule step_eq)

theorem step_spec_witness:
  "wf_fields \<lparr>SIZE = 3, imp0 = 2, maxTime = 1\<rparr> \<lparr>ez = [1, 2, 4], hy = [0, 0, 0]\<rparr> \<and>
   step \<lparr>SIZE = 3, imp0 = 2, maxTime = 1\<rparr> 0 \<lparr>ez = [1, 2, 4], hy = [0, 0, 0]\<rparr> = Inl IndexError"
  using step_spec [of "\<lparr>SIZE = 3, imp0 = 2, maxTime = 1\<rparr>" "\<lparr>ez = [1, 2, 4], hy = [0, 0, 0]\<rparr>" 0]
  by (simp add: wf_fields_def)

text \<open>
  C6. With a non-zero impedance and more than 50 cells the program runs to completion:
  it prints \<^verbatim>\<open>maxTime\<close> values, the value of step \<open>q\<close> being cell 50 of the
  abstract state after \<open>q + 1\<close> steps, and ends in the abstract state after
  \<^verbatim>\<open>maxTime\<close> steps.
\<close>

theorem run_spec:
  assumes "imp0 c \<noteq> 0" and "50 < SIZE c"
  shows "run c = (map (\<lambda>q. ez (fields_at c (Suc q)) ! 50) [0..<nat (maxTime c)],
                  Inr (fields_at c (nat (maxTime c))))"
  using assms by (rule run_eq)

theorem run_spec_witness:
  "imp0 program_config \<noteq> 0 \<and> 50 < SIZE program_config \<and>
   run program_config = (map (\<lambda>q. ez (fields_at program_config (Suc q)) ! 50) [0..<250],
                         Inr (fields_at program_config 250))"
  using run_spec [of program_config] by simp

text \<open>
  C8. The reachable states of the driver are the states of the abstract leapfrog
  scheme: after \<open>k\<close> iterations the grid is \<open>fields_at c k\<close>.
\<close>

theorem reach_fields_at: "reach c k s \<Longrightarrow> s = fields_at c k"
  by (rule reach_is_fields_at)

theorem reach_fields_at_witness:
  "reach program_config 2 (fields_at program_config 2) \<and>
   fields_at program_config 2 = leapfrog program_config 1 (leapfrog program_config 0 (init_fields program_config))"
proof -
  have r: "reach program_config 2 (fields_at program_config 2)"
    by (rule fields_at_reach) simp_all
  from reach_fields_at [OF r] r show ?thesis by (simp add: numeral_2_eq_2)
qed

text \<open>C9. Both field arrays keep \<^verbatim>\<open>SIZE\<close> cells in every reachable state.\<close>

theorem reach_wf: "reach c k s \<Longrightarrow> wf_fields c s"
  by (rule reach_wf_fields)

theorem reach_wf_witness:
  "reach program_config 3 (fields_at program_config 3) \<and>
   wf_fields program_config (fields_at program_config 3)"
proof -
  have r: "reach program_config 3 (fields_at program_config 3)"
    by (rule fields_at_reach) simp_all
  with reach_wf [OF r] show ?thesis by simp
qed

text \<open>
  C10. The last magnetic cell \<^verbatim>\<open>hy[SIZE - 1]\<close> is never written: it holds
  \<open>0.0\<close> in every reachable state.
\<close>

theorem reach_hy_last:
  assumes "reach c k s" and "0 < SIZE c"
  shows "hy s ! (cells c - 1) = 0"
  using assms
proof (induction rule: reach.induct)
  case reach_init
  then show ?case by simp
next
  case (reach_step k s s' v)
  then have s': "s' = leapfrog c (int k) s" and len: "length (hy s) = cells c"
    using reach_wf_fields by (auto simp: step_Inr wf_fields_def)
  from len reach_step.prems have "0 < length (hy s)" by simp
  with s' len have "hy s' ! (cells c - 1) = hy s ! (cells c - 1)"
    using hy_last_leapfrog [of s c "int k"] by simp
  with reach_step.IH reach_step.prems show ?case by simp
qed

theorem reach_hy_last_witness:
  "reach program_config 100 (fields_at program_config 100) \<and> 0 < SIZE program_config \<and>
   hy (fields_at program_config 100) ! 199 = 0"
proof -
  have r: "reach program_config 100 (fields_at program_config 100)"
    by (rule fields_at_reach) simp_all
  with reach_hy_last [OF r] show ?thesis by simp
qed

text \<open>
  C12. On a grid of at most 50 cells the first step raises \<open>IndexError\<close> (from
  \<^verbatim>\<open>print(ez[50])\<close>, or from \<^verbatim>\<open>ez[0] = \<dots>\<close> when the grid is empty) before
  anything is printed, unless the magnetic loop divides by a zero impedance first.
\<close>

theorem run_index_error:
  assumes "0 < maxTime c" and "SIZE c \<le> 50" and "imp0 c \<noteq> 0 \<or> SIZE c \<le> 1"
  shows "run c = ([], Inl IndexError)"
proof -
  have "py_range (maxTime c) = 0 # map int [1..<nat (maxTime c)]"
    using assms(1) by (simp add: py_range_def upt_rec)
  with assms show ?thesis
    by (auto simp: run_def step_eq wf_init_fields)
qed

theorem run_index_error_witness:
  "run \<lparr>SIZE = 40, imp0 = 377, maxTime = 10\<rparr> = ([], Inl IndexError)"
  by (rule run_index_error) simp_all

text \<open>C13. A zero impedance makes the first step raise \<open>ZeroDivisionError\<close>.\<close>

theorem run_zero_division:
  assumes "0 < maxTime c" and "2 \<le> SIZE c" and "imp0 c = 0"
  shows "run c = ([], Inl ZeroDivisionError)"
proof -
  have "py_range (maxTime c) = 0 # map int [1..<nat (maxTime c)]"
    using assms(1) by (simp add: py_range_def upt_rec)
  with assms show ?thesis
    by (simp add: run_def step_eq wf_init_fields)
qed

theorem run_zero_division_witness:
  "run \<lparr>SIZE = 200, imp0 = 0, maxTime = 250\<rparr> = ([], Inl ZeroDivisionError)"
  by (rule run_zero_division) simp_all

text \<open>
  C14. With \<^verbatim>\<open>maxTime \<le> 0\<close> the loop body never runs: nothing is printed and no
  exception is raised, whatever the grid size.
\<close>

theorem run_no_steps:
  assumes "maxTime c \<le> 0"
  shows "run c = ([], Inr (init_fields c))"
  using assms by (simp add: run_def py_simps)

theorem run_no_steps_witness:
  "run \<lparr>SIZE = 40, imp0 = 377, maxTime = -1\<rparr> = ([], Inr (init_fields \<lparr>SIZE = 40, imp0 = 377, maxTime = -1\<rparr>))"
  by (rule run_no_steps) simp

text \<open>
  C15. A run that ends without an exception has printed exactly one value per
  iteration, \<^verbatim>\<open>maxTime\<close> values in all (none when \<^verbatim>\<open>maxTime\<close> is negative).
\<close>

theorem run_output_length:
  assumes "snd (run c) = Inr s"
  shows "length (fst (run c)) = nat (maxTime c)"
proof -
  obtain out where "run c = (out, Inr s)"
    using assms by (cases "run c") simp
  then show ?thesis
    by (simp add: run_def py_range_def run_loop_length)
qed

theorem run_output_length_witness:
  "snd (run program_config) = Inr (fields_at program_config 250) \<and>
   length (fst (run program_config)) = 250"
proof -
  have "snd (run program_config) = Inr (fields_at program_config 250)"
    using run_eq [of program_config] by simp
  with run_output_length [OF this] show ?thesis by simp
qed

text \<open>
  C23. The hard source: in every state reached after the iteration \<^verbatim>\<open>qTime = k\<close>,
  \<^verbatim>\<open>ez[0]\<close> holds the source value of step \<open>k\<close>, whatever the update equations
  computed there.
\<close>

theorem reach_source_cell:
  assumes "reach c (Suc k) s" and "0 < SIZE c"
  shows "ez s ! 0 = source (int k)"
  using assms(1)
proof (rule reach_SucE)
  fix s0 v
  assume r: "reach c k s0" and st: "step c (int k) s0 = Inr (s, v)"
  from r have wf: "wf_fields c s0" by (rule reach_wf_fields)
  with st have "s = leapfrog c (int k) s0" by (simp add: step_Inr)
  with wf assms(2) show ?thesis by (simp add: fdtd_simps)
qed

theorem reach_source_cell_witness:
  "reach program_config 31 (fields_at program_config 31) \<and> 0 < SIZE program_config \<and>
   ez (fields_at program_config 31) ! 0 = 1"
proof -
  have "reach program_config 31 (fields_at program_config 31)"
    by (rule fields_at_reach) simp_all
  then have r: "reach program_config (Suc 30) (fields_at program_config 31)"
    by simp
  from reach_source_cell [OF r] r show ?thesis by (simp add: source_def)
qed

end
