(* ===== verification/Propagation.thy ===== *)
theory Propagation
  imports Stepper
begin

text \<open>
  How the pulse injected at cell 0 travels along the grid. The update coefficients of
  \<^verbatim>\<open>src/fdtd1d.py\<close> are \<open>1/imp0\<close> and \<open>imp0\<close>, whose product is 1: the scheme runs at
  the "magic" time step where one step moves a wave exactly one cell. The theorems make
  this precise for the abstract states \<open>fields_at c k\<close> (which the program's
  reachable states are, by \<open>Stepper.reach_fields_at\<close>):
  \<^item> causality: after \<open>k\<close> steps every electric cell \<open>m \<ge> k\<close> and every magnetic
    cell \<open>m \<ge> k - 1\<close> is still exactly zero;
  \<^item> the exact solution: as long as the wave reflected at the right end has not come
    back (\<open>m + k < 2 * SIZE\<close>), cell \<open>m\<close> of \<^verbatim>\<open>ez\<close> after \<open>k\<close> steps holds the
    source value of step \<open>k - 1 - m\<close> and cell \<open>m\<close> of \<^verbatim>\<open>hy\<close> minus the source value
    of step \<open>k - 2 - m\<close> divided by \<^verbatim>\<open>imp0\<close>: the pulse travels undistorted;
  \<^item> the leading edge of the wave carries the first source value \<open>source 0\<close>.
\<close>

section \<open>The travelling pulse\<close>

definition exact_ez :: "nat \<Rightarrow> nat \<Rightarrow> real" where
  "exact_ez k m = (if m < k then source (int (k - 1 - m)) else 0)"

definition exact_hy :: "real \<Rightarrow> nat \<Rightarrow> nat \<Rightarrow> real" where
  "exact_hy imp k m = (if m + 1 < k then - source (int (k - 2 - m)) / imp else 0)"

section \<open>Causality\<close>

lemma causality_both:
  "m < cells c \<Longrightarrow>
    (k \<le> m \<longrightarrow> ez (fields_at c k) ! m = 0) \<and> (k \<le> m + 1 \<longrightarrow> hy (fields_at c k) ! m = 0)"
proof (induction k arbitrary: m)
  case 0
  then show ?case by simp
next
  case (Suc k)
  have hy0: "hy (fields_at c (Suc k)) ! j = 0" if "j < cells c" and "k \<le> j" for j
  proof (cases "j + 1 < cells c")
    case True
    with that Suc.IH [of j] Suc.IH [of "j + 1"] show ?thesis
      by (simp add: fdtd_simps wf_fields_at)
  next
    case False
    with that Suc.IH [of j] show ?thesis
      by (simp add: fdtd_simps wf_fields_at)
  qed
  have "ez (fields_at c (Suc k)) ! m = 0" if "Suc k \<le> m"
  proof -
    from that Suc.prems have "hy (fields_at c (Suc k)) ! m = 0"
      by (intro hy0) auto
    moreover from that Suc.prems have "hy (fields_at c (Suc k)) ! (m - 1) = 0"
      by (intro hy0) auto
    ultimately show ?thesis using that Suc.prems Suc.IH [of m]
      by (simp add: fdtd_simps wf_fields_at)
  qed
  with Suc.prems hy0 [of m] show ?case by auto
qed

section \<open>The exact solution\<close>

text \<open>The travelling pulse satisfies the two update equations away from the ends.\<close>

lemma exact_hy_step:
  assumes "imp \<noteq> 0"
  shows "exact_hy imp (Suc k) m = exact_hy imp k m + (exact_ez k (m + 1) - exact_ez k m) / imp"
proof -
  consider (inside) "m + 1 < k" | (edge) "m + 1 = k" | (ahead) "k \<le> m"
    by arith
  then show ?thesis
  proof cases
    case inside
    then have "k - 1 - (m + 1) = k - 2 - m" and "Suc k - 2 - m = k - 1 - m" by arith+
    with inside show ?thesis
      by (simp add: exact_ez_def exact_hy_def diff_divide_distrib)
  next
    case edge
    then show ?thesis by (simp add: exact_ez_def exact_hy_def)
  qed (simp add: exact_ez_def exact_hy_def)
qed

lemma exact_ez_step:
  assumes "imp \<noteq> 0" and "0 < m"
  shows "exact_ez (Suc k) m =
    exact_ez k m + (exact_hy imp (Suc k) m - exact_hy imp (Suc k) (m - 1)) * imp"
proof -
  consider (behind) "m < k" | (edge) "m = k" | (ahead) "k < m"
    by arith
  then show ?thesis
  proof cases
    case behind
    with assms(2) have "Suc k - 2 - (m - 1) = k - m" and "Suc k - 1 - m = k - m"
      and "Suc k - 2 - m = k - 1 - m" by arith+
    with behind assms show ?thesis
      by (simp add: exact_ez_def exact_hy_def algebra_simps)
  next
    case edge
    with assms show ?thesis by (simp add: exact_ez_def exact_hy_def)
  next
    case ahead
    with assms show ?thesis by (simp add: exact_ez_def exact_hy_def)
  qed
qed

text \<open>
  The exact solution: with a non-zero impedance, every cell \<open>m\<close> that the wave
  reflected at the right end of the grid has not reached yet (\<open>m + k < 2 * SIZE\<close>)
  holds the travelling pulse after \<open>k\<close> steps.
\<close>

lemma exact_fields_at:
  assumes "imp0 c \<noteq> 0" and "m < cells c" and "m + k < 2 * cells c"
  shows "ez (fields_at c k) ! m = exact_ez k m \<and> hy (fields_at c k) ! m = exact_hy (imp0 c) k m"
  using assms(2,3)
proof (induction k arbitrary: m)
  case 0
  then show ?case by (simp add: exact_ez_def exact_hy_def)
next
  case (Suc k)
  have hy: "hy (fields_at c (Suc k)) ! j = exact_hy (imp0 c) (Suc k) j"
    if "j < cells c" and "j + Suc k < 2 * cells c" for j
  proof (cases "j + 1 < cells c")
    case True
    with that Suc.IH [of j] Suc.IH [of "j + 1"] show ?thesis
      by (simp add: fdtd_simps wf_fields_at exact_hy_step [OF assms(1)])
  next
    case False
    with that have "\<not> j + 1 < k" and "\<not> j + 1 < Suc k" by arith+
    with that False Suc.IH [of j] show ?thesis
      by (simp add: fdtd_simps wf_fields_at exact_hy_def)
  qed
  show ?case
  proof (cases m)
    case 0
    with Suc.prems hy [of m] show ?thesis
      by (simp add: fdtd_simps wf_fields_at exact_ez_def)
  next
    case (Suc m')
    with Suc.prems have "0 < m" and "m - 1 < cells c" and "m - 1 + Suc k < 2 * cells c"
      by arith+
    with Suc.prems Suc.IH [of m] hy [of m] hy [of "m - 1"] show ?thesis
      by (simp add: fdtd_simps wf_fields_at exact_ez_step [OF assms(1)])
  qed
qed

section \<open>Properties of the propagation\<close>

text \<open>
  C2. The exact solution: with a non-zero impedance, every cell \<open>m\<close> that the wave
  reflected at the right end of the grid has not reached yet (\<open>m + k < 2 * SIZE\<close>)
  holds the travelling pulse after \<open>k\<close> steps: \<^verbatim>\<open>ez[m]\<close> is the source value of
  step \<open>k - 1 - m\<close> (zero before the wave arrives) and \<^verbatim>\<open>hy[m]\<close> minus the source
  value of step \<open>k - 2 - m\<close> divided by \<^verbatim>\<open>imp0\<close>.
\<close>

theorem exact_solution:
  assumes "imp0 c \<noteq> 0" and "m < cells c" and "m + k < 2 * cells c"
  shows "ez (fields_at c k) ! m = exact_ez k m \<and> hy (fields_at c k) ! m = exact_hy (imp0 c) k m"
  using assms by (rule exact_fields_at)

theorem exact_solution_witness:
  "imp0 program_config \<noteq> 0 \<and> 50 < cells program_config \<and> 50 + 81 < 2 * cells program_config \<and>
   ez (fields_at program_config 81) ! 50 = 1 \<and>
   hy (fields_at program_config 81) ! 50 = - source 29 / 377"
  using exact_solution [of program_config 50 81]
  by (simp add: exact_ez_def exact_hy_def source_def)

text \<open>
  C7. Causality: after \<open>k\<close> steps no electric cell at or beyond cell \<open>k\<close> has been
  reached by the pulse; it holds exactly \<open>0.0\<close>, whatever \<^verbatim>\<open>imp0\<close> is.
\<close>

theorem causality:
  assumes "m < cells c" and "k \<le> m"
  shows "ez (fields_at c k) ! m = 0"
  using causality_both [OF assms(1)] assms(2) by blast

theorem causality_witness:
  "50 < cells program_config \<and> 30 \<le> (50::nat) \<and> ez (fields_at program_config 30) ! 50 = 0"
  using causality [of 50 program_config 30] by simp

text \<open>
  C16. The leading edge of the wave moves one cell per step and carries the first
  source value: after \<open>k\<close> steps (\<open>1 \<le> k \<le> SIZE\<close>) cell \<open>k - 1\<close> holds
  \<open>source 0 = exp (-9)\<close>.
\<close>

theorem leading_edge:
  assumes "imp0 c \<noteq> 0" and "0 < k" and "k \<le> cells c"
  shows "ez (fields_at c k) ! (k - 1) = source 0"
proof -
  from assms have "k - 1 < cells c" and "k - 1 + k < 2 * cells c" by arith+
  with assms(1) have "ez (fields_at c k) ! (k - 1) = exact_ez k (k - 1)"
    by (simp add: exact_fields_at)
  with assms(2) show ?thesis by (simp add: exact_ez_def)
qed

theorem leading_edge_witness:
  "imp0 program_config \<noteq> 0 \<and> 0 < (51::nat) \<and> 51 \<le> cells program_config \<and>
   ez (fields_at program_config 51) ! 50 = exp (- 9)"
  using leading_edge [of program_config 51] by (simp add: source_def)

text \<open>
  C21. Bounds: with a non-zero impedance, before the reflected wave returns, every
  electric cell lies in \<open>[0, 1]\<close>.
\<close>

theorem field_bounds:
  assumes "imp0 c \<noteq> 0" and "m < cells c" and "m + k < 2 * cells c"
  shows "0 \<le> ez (fields_at c k) ! m \<and> ez (fields_at c k) ! m \<le> 1"
  using exact_fields_at [OF assms] source_pos [THEN less_imp_le] source_le_one
  by (simp add: exact_ez_def)

theorem field_bounds_witness:
  "imp0 program_config \<noteq> 0 \<and> 120 < cells program_config \<and> 120 + 200 < 2 * cells program_config \<and>
   0 \<le> ez (fields_at program_config 200) ! 120 \<and> ez (fields_at program_config 200) ! 120 \<le> 1"
  using field_bounds [of program_config 120 200] by simp

text \<open>
  C24. For every configuration with a non-zero impedance and more than 50 cells, the
  first 50 printed values are exactly \<open>0.0\<close>: the wave needs 50 steps to reach the
  observed cell.
\<close>

theorem run_early_silence:
  assumes "imp0 c \<noteq> 0" and "50 < SIZE c" and "q < 50" and "q < nat (maxTime c)"
  shows "fst (run c) ! q = 0"
proof -
  from assms(4) have "fst (run c) ! q = ez (fields_at c (Suc q)) ! 50"
    by (simp add: run_eq [OF assms(1,2)])
  also from assms(2,3) have "\<dots> = 0"
    using causality_both [of 50 c "Suc q"] by simp
  finally show ?thesis .
qed

theorem run_early_silence_witness:
  "imp0 program_config \<noteq> 0 \<and> 50 < SIZE program_config \<and> (49::nat) < 50 \<and>
   49 < nat (maxTime program_config) \<and> fst (run program_config) ! 49 = 0"
  using run_early_silence [of program_config 49] by simp

end
