(* ===== verification/ClosedForm.thy ===== *)
theory ClosedForm
  imports Propagation
begin

text \<open>
  The complete solution of the program, reflections included. Before the wave comes
  back from the right end, \<open>Propagation\<close> shows that the pulse travels undistorted.
  Here every step is covered. The last magnetic cell is never written, so it acts as
  a mirror: the electric wave comes back with the same sign. The hard source keeps
  \<^verbatim>\<open>ez[0]\<close> equal to the pulse, so it reflects the returning wave with the
  opposite sign and sends it right again.

  Write \<open>L = 2 * SIZE - 1\<close> and let \<open>pulse_train L t\<close> be the wave that leaves
  cell 0: zero for \<open>t \<le> 0\<close>, and otherwise the source value of step \<open>t - 1\<close> minus
  the wave of \<open>L\<close> steps earlier. After \<open>k\<close> steps cell \<open>m\<close> holds the right-going
  wave \<open>pulse_train L (k - m)\<close> plus its mirror image
  \<open>pulse_train L (k + m - L)\<close> (\<open>ez_closed\<close>); \<^verbatim>\<open>hy\<close> holds their difference
  over \<^verbatim>\<open>imp0\<close> (\<open>hy_closed\<close>). The update equations in the interior are linear
  identities of these sums. The right boundary holds because the two terms cancel in
  the last magnetic cell. The left boundary holds because \<open>pulse_train\<close> is defined
  by that recurrence. \<open>pulse_train\<close> is defined by well-founded recursion on \<open>t\<close>
  and is executable.
\<close>

section \<open>The pulse train and the closed form\<close>

function pulse_train :: "nat \<Rightarrow> int \<Rightarrow> real" where
  "pulse_train L t = (if t \<le> 0 \<or> L = 0 then 0 else source (t - 1) - pulse_train L (t - int L))"
  by pat_completeness auto
termination by (relation "measure (\<lambda>(L, t). nat t)") auto

definition ez_closed :: "nat \<Rightarrow> nat \<Rightarrow> nat \<Rightarrow> real" where
  "ez_closed n k m =
     pulse_train (2 * n - 1) (int k - int m) + pulse_train (2 * n - 1) (int k + int m - int (2 * n - 1))"

definition hy_closed :: "real \<Rightarrow> nat \<Rightarrow> nat \<Rightarrow> nat \<Rightarrow> real" where
  "hy_closed imp n k m =
     (pulse_train (2 * n - 1) (int k + int m - int (2 * n - 1)) - pulse_train (2 * n - 1) (int k - 1 - int m)) / imp"

declare pulse_train.simps [simp del]


lemma pulse_train_nonpos [simp]: "t \<le> 0 \<Longrightarrow> pulse_train L t = 0"
  by (simp add: pulse_train.simps)

lemma pulse_train_pos: "0 < t \<Longrightarrow> 0 < L \<Longrightarrow> pulse_train L t = source (t - 1) - pulse_train L (t - int L)"
  by (subst pulse_train.simps) simp

lemma hy_closed_last: "0 < n \<Longrightarrow> hy_closed imp n k (n - 1) = 0"
  by (simp add: hy_closed_def of_nat_diff)

lemma hy_closed_step:
  assumes "imp \<noteq> 0"
  shows "hy_closed imp n (Suc k) m = hy_closed imp n k m + (ez_closed n k (m + 1) - ez_closed n k m) / imp"
proof -
  have "int (Suc k) + int m - int (2 * n - 1) = int k + int (m + 1) - int (2 * n - 1)"
    and "int (Suc k) - 1 - int m = int k - int m"
    and "int k - int (m + 1) = int k - 1 - int m" by simp_all
  then show ?thesis
    using assms by (simp add: ez_closed_def hy_closed_def field_simps)
qed

lemma ez_closed_step:
  assumes "imp \<noteq> 0" and "0 < m"
  shows "ez_closed n (Suc k) m = ez_closed n k m + (hy_closed imp n (Suc k) m - hy_closed imp n (Suc k) (m - 1)) * imp"
proof -
  have "int (Suc k) - int m = int (Suc k) - 1 - int (m - 1)"
    and "int (Suc k) + int (m - 1) - int (2 * n - 1) = int k + int m - int (2 * n - 1)"
    and "int (Suc k) - 1 - int m = int k - int m"
    using assms(2) by (simp_all add: of_nat_diff)
  then show ?thesis
    using assms(1) by (simp add: ez_closed_def hy_closed_def field_simps)
qed

lemma ez_closed_zero:
  assumes "0 < n"
  shows "ez_closed n (Suc k) 0 = source (int k)"
proof -
  from assms have "0 < 2 * n - 1" by simp
  then show ?thesis
    using pulse_train_pos [of "int (Suc k)" "2 * n - 1"] by (simp add: ez_closed_def)
qed

lemma closed_form_eq:
  assumes "imp0 c \<noteq> 0" and "m < cells c"
  shows "ez (fields_at c k) ! m = ez_closed (cells c) k m \<and>
         hy (fields_at c k) ! m = hy_closed (imp0 c) (cells c) k m"
  using assms(2)
proof (induction k arbitrary: m)
  case 0
  then show ?case by (simp add: ez_closed_def hy_closed_def)
next
  case (Suc k)
  have hy: "hy (fields_at c (Suc k)) ! j = hy_closed (imp0 c) (cells c) (Suc k) j"
    if "j < cells c" for j
  proof (cases "j + 1 < cells c")
    case True
    then have "hy (fields_at c (Suc k)) ! j =
        hy (fields_at c k) ! j + (ez (fields_at c k) ! (j + 1) - ez (fields_at c k) ! j) / imp0 c"
      by (simp add: fdtd_simps wf_fields_at)
    also have "\<dots> = hy_closed (imp0 c) (cells c) k j +
        (ez_closed (cells c) k (j + 1) - ez_closed (cells c) k j) / imp0 c"
      using Suc.IH [of j] Suc.IH [of "j + 1"] that True by simp
    also have "\<dots> = hy_closed (imp0 c) (cells c) (Suc k) j"
      by (rule hy_closed_step [OF assms(1), symmetric])
    finally show ?thesis .
  next
    case False
    with that have j: "j = cells c - 1" and n: "0 < cells c" by arith+
    have "hy (fields_at c (Suc k)) ! j = hy (fields_at c k) ! j"
      using that False by (simp add: fdtd_simps wf_fields_at)
    also have "\<dots> = 0"
      using Suc.IH [OF that] hy_closed_last [OF n, of "imp0 c" k] j by simp
    also have "\<dots> = hy_closed (imp0 c) (cells c) (Suc k) j"
      using hy_closed_last [OF n, of "imp0 c" "Suc k"] j by simp
    finally show ?thesis .
  qed
  have ez: "ez (fields_at c (Suc k)) ! m = ez_closed (cells c) (Suc k) m"
  proof (cases m)
    case 0
    from Suc.prems have n: "0 < cells c" by simp
    with 0 show ?thesis
      by (simp add: fdtd_simps wf_fields_at ez_closed_zero)
  next
    case (Suc m')
    then have m: "0 < m" by simp
    with Suc.prems have "ez (fields_at c (Suc k)) ! m =
        ez (fields_at c k) ! m + (hy (fields_at c (Suc k)) ! m - hy (fields_at c (Suc k)) ! (m - 1)) * imp0 c"
      by (simp add: fdtd_simps wf_fields_at)
    also have "\<dots> = ez_closed (cells c) k m +
        (hy_closed (imp0 c) (cells c) (Suc k) m - hy_closed (imp0 c) (cells c) (Suc k) (m - 1)) * imp0 c"
      using Suc.IH [OF Suc.prems] hy [OF Suc.prems] hy [of "m - 1"] Suc.prems by simp
    also have "\<dots> = ez_closed (cells c) (Suc k) m"
      by (rule ez_closed_step [OF assms(1) m, symmetric])
    finally show ?thesis .
  qed
  from ez hy [OF Suc.prems] show ?case by simp
qed
lemma run_program_any_duration:
  "fst (run (program_config\<lparr>maxTime := T\<rparr>)) =
     map (\<lambda>q. pulse_train 399 (int q - 49) + pulse_train 399 (int q - 348)) [0..<nat T]"
proof -
  let ?c = "program_config\<lparr>maxTime := T\<rparr>"
  have "fst (run ?c) = map (\<lambda>q. ez (fields_at ?c (Suc q)) ! 50) [0..<nat T]"
    using run_eq [of ?c] by simp
  also have "\<dots> = map (\<lambda>q. pulse_train 399 (int q - 49) + pulse_train 399 (int q - 348)) [0..<nat T]"
  proof (rule map_cong [OF refl])
    fix q
    have "ez (fields_at ?c (Suc q)) ! 50 = ez_closed 200 (Suc q) 50"
      using closed_form_eq [of ?c 50 "Suc q"] by simp
    then show "ez (fields_at ?c (Suc q)) ! 50 = pulse_train 399 (int q - 49) + pulse_train 399 (int q - 348)"
      by (simp add: ez_closed_def algebra_simps)
  qed
  finally show ?thesis .
qed

section \<open>Bounds on the pulse train\<close>

text \<open>
  \<open>pulse_train L t\<close> is the alternating sum of the source values of steps
  \<open>t - 1, t - 1 - L, t - 1 - 2 L, \<dots>\<close>. The source rises up to step 30 and falls
  after it, so the terms before the peak and those after it are each monotone, and
  each part of the alternating sum lies between zero and its largest term. Hence the
  whole sum stays in \<open>[-1, 1]\<close>, for every \<open>t\<close>.
\<close>

lemma pulse_train_rising:
  "0 < L \<Longrightarrow> t \<le> 31 \<Longrightarrow> 0 \<le> pulse_train L t \<and> pulse_train L t \<le> source (t - 1)"
proof (induction L t rule: pulse_train.induct)
  case (1 L t)
  show ?case
  proof (cases "t \<le> 0")
    case True
    then show ?thesis by (simp add: source_pos less_imp_le)
  next
    case False
    with "1.prems" have ih: "0 \<le> pulse_train L (t - int L) \<and> pulse_train L (t - int L) \<le> source (t - int L - 1)"
      by (intro "1.IH") simp_all
    from "1.prems" have "source (t - int L - 1) \<le> source (t - 1)"
      by (intro source_antimono) simp
    with ih False "1.prems"(1) show ?thesis
      by (simp add: pulse_train_pos)
  qed
qed

lemma pulse_train_falling:
  "0 < L \<Longrightarrow> 31 \<le> t \<Longrightarrow> source (t - 1) - 1 \<le> pulse_train L t \<and> pulse_train L t \<le> 1"
proof (induction L t rule: pulse_train.induct)
  case (1 L t)
  then have eq: "pulse_train L t = source (t - 1) - pulse_train L (t - int L)"
    by (simp add: pulse_train_pos)
  show ?case
  proof (cases "t - int L \<le> 31")
    case True
    with "1.prems"(1) pulse_train_rising [of L "t - int L"]
    have "0 \<le> pulse_train L (t - int L) \<and> pulse_train L (t - int L) \<le> 1"
      using source_le_one [of "t - int L - 1"] by simp
    with eq show ?thesis using source_le_one [of "t - 1"] by simp
  next
    case False
    with "1.prems" have ih: "source (t - int L - 1) - 1 \<le> pulse_train L (t - int L) \<and> pulse_train L (t - int L) \<le> 1"
      by (intro "1.IH") simp_all
    from False "1.prems" have "source (t - 1) \<le> source (t - int L - 1)"
      by (intro source_antimono) simp
    with ih eq show ?thesis by simp
  qed
qed

lemma pulse_train_bound: "\<bar>pulse_train L t\<bar> \<le> 1"
proof (cases "L = 0")
  case True
  then show ?thesis by (simp add: pulse_train.simps)
next
  case False
  show ?thesis
  proof (cases "t \<le> 31")
    case True
    with False pulse_train_rising [of L t] source_le_one [of "t - 1"] show ?thesis by simp
  next
    case True: False
    with False pulse_train_falling [of L t] source_pos [of "t - 1"] show ?thesis
      by (simp add: abs_le_iff)
  qed
qed

section \<open>Properties of the complete solution\<close>

text \<open>
  C25. The complete solution: for every non-zero impedance, every step \<open>k\<close> and every
  cell \<open>m\<close>, \<^verbatim>\<open>ez[m]\<close> is the pulse train leaving cell 0 plus its mirror image in
  the last magnetic cell, and \<^verbatim>\<open>hy[m]\<close> their difference over \<^verbatim>\<open>imp0\<close>.
\<close>

theorem closed_form_solution:
  assumes "imp0 c \<noteq> 0" and "m < cells c"
  shows "ez (fields_at c k) ! m = ez_closed (cells c) k m \<and>
         hy (fields_at c k) ! m = hy_closed (imp0 c) (cells c) k m"
  using assms by (rule closed_form_eq)

theorem closed_form_solution_witness:
  "imp0 program_config \<noteq> 0 \<and> 50 < cells program_config \<and>
   ez (fields_at program_config 380) ! 50 = source 329 + 1"
proof -
  have "ez (fields_at program_config 380) ! 50 = ez_closed 200 380 50"
    using closed_form_solution [of program_config 50 380] by simp
  also have "\<dots> = source 329 + 1"
    by (simp add: ez_closed_def pulse_train_pos source_def)
  finally show ?thesis by simp
qed

text \<open>
  C26. With the checked-in grid and impedance and any step count \<^verbatim>\<open>maxTime\<close>, the
  program prints, at step \<open>q\<close>, the pulse train at \<open>q - 49\<close> plus its reflection
  at \<open>q - 348\<close>: the pulse that passes the probe at step 80 comes back from the
  right end, and from then on the reflections continue with alternating sign.
\<close>

theorem program_any_duration:
  "fst (run (program_config\<lparr>maxTime := T\<rparr>)) =
     map (\<lambda>q. pulse_train 399 (int q - 49) + pulse_train 399 (int q - 348)) [0..<nat T]"
  by (rule run_program_any_duration)

text \<open>
  C27. Stability: for every non-zero impedance the fields stay bounded for ever:
  after any number of steps every \<^verbatim>\<open>ez[m]\<close> lies in \<open>[-2, 2]\<close> and every
  \<^verbatim>\<open>hy[m]\<close> in \<open>[-2 / |imp0|, 2 / |imp0|]\<close>. The bound 2 is nearly reached: at the
  last cell the incoming pulse and its reflection add up.
\<close>

theorem stability:
  assumes "imp0 c \<noteq> 0" and "m < cells c"
  shows "\<bar>ez (fields_at c k) ! m\<bar> \<le> 2 \<and> \<bar>hy (fields_at c k) ! m\<bar> * \<bar>imp0 c\<bar> \<le> 2"
proof -
  let ?L = "2 * cells c - 1"
  have b: "\<bar>pulse_train ?L t\<bar> \<le> 1" for t by (rule pulse_train_bound)
  from closed_form_eq [OF assms] have
    e: "ez (fields_at c k) ! m = ez_closed (cells c) k m" and
    h: "hy (fields_at c k) ! m = hy_closed (imp0 c) (cells c) k m" by simp_all
  have "\<bar>ez_closed (cells c) k m\<bar> \<le> 2"
    unfolding ez_closed_def using b [of "int k - int m"] b [of "int k + int m - int ?L"] by linarith
  moreover have "\<bar>hy_closed (imp0 c) (cells c) k m * imp0 c\<bar> \<le> 2"
    unfolding hy_closed_def using assms(1) b [of "int k - 1 - int m"] b [of "int k + int m - int ?L"]
    by simp linarith
  ultimately show ?thesis using e h by (simp only: abs_mult)
qed

theorem stability_witness:
  "imp0 program_config \<noteq> 0 \<and> 199 < cells program_config \<and>
   ez (fields_at program_config 230) ! 199 = 1 + source 29 \<and>
   \<bar>ez (fields_at program_config 230) ! 199\<bar> \<le> 2 \<and>
   \<bar>hy (fields_at program_config 230) ! 199\<bar> * \<bar>imp0 program_config\<bar> \<le> 2"
proof -
  have "ez (fields_at program_config 230) ! 199 = ez_closed 200 230 199"
    using closed_form_eq [of program_config 199 230] by simp
  also have "\<dots> = 1 + source 29"
    by (simp add: ez_closed_def pulse_train_pos source_def)
  finally show ?thesis using stability [of program_config 199 230] by simp
qed

end
