(* ===== verification/Spec2Isabelle.thy ===== *)
theory Spec2Isabelle
  imports ClosedForm
begin

text \<open>
  \<^bold>\<open>A verified model of \<^verbatim>\<open>src/fdtd1d.py\<close>, a bare-bones one-dimensional FDTD
  simulation with a hard source.\<close>

  \<^medskip>
  \<^bold>\<open>The program.\<close> A 25-line Python script. Module-level constants
  (\<^verbatim>\<open>SIZE = 200\<close>, \<^verbatim>\<open>imp0 = 377.0\<close>, \<^verbatim>\<open>maxTime = 250\<close>) and two lists
  \<^verbatim>\<open>ez\<close>, \<^verbatim>\<open>hy\<close> of \<^verbatim>\<open>SIZE\<close> zeros; a driver loop over \<^verbatim>\<open>qTime\<close> whose body
  (1) updates \<^verbatim>\<open>hy[mm]\<close> for \<^verbatim>\<open>mm < SIZE - 1\<close> from the forward difference of
  \<^verbatim>\<open>ez\<close> divided by \<^verbatim>\<open>imp0\<close>, (2) updates every \<^verbatim>\<open>ez[mm]\<close> from the backward
  difference of \<^verbatim>\<open>hy\<close> times \<^verbatim>\<open>imp0\<close>, where \<^verbatim>\<open>hy[mm - 1]\<close> at \<^verbatim>\<open>mm = 0\<close> is
  Python's \<^verbatim>\<open>hy[-1]\<close>, the last cell, (3) overwrites \<^verbatim>\<open>ez[0]\<close> with a Gaussian
  pulse and (4) prints \<^verbatim>\<open>ez[50]\<close>. The parts interact only through the two lists,
  which each part reads and writes in place, in this order.

  \<^medskip>
  \<^bold>\<open>The theories and the code they model.\<close>
  \<^item> \<open>Prelude\<close>: the exceptions the script can raise (\<open>py_error\<close>), the error monad
    \<open>ebind\<close> that sequences Python statements, the rule collections \<open>py_simps\<close>
    and \<open>fdtd_simps\<close>, and the list lemmas shared by the loop proofs
    (\<open>fold_update_upt\<close>, \<open>fold_add_upt\<close>, \<open>ring_pred\<close>).
  \<^item> \<open>PyList\<close>: the Python semantics the script relies on: \<open>py_get\<close>/\<open>py_set\<close>
    (subscripts with negative indices and \<open>IndexError\<close>), \<open>py_repeat\<close>
    (\<^verbatim>\<open>[x] * n\<close>), \<open>py_range\<close>, \<open>py_fdiv\<close> (float division raising
    \<open>ZeroDivisionError\<close>) and \<open>py_for\<close> (a loop that stops at the first
    exception).
  \<^item> \<open>Grid\<close>, lines 4--9: the constants as a record \<open>config\<close>, so that the
    theorems hold for every grid size, impedance and step count, and the checked-in
    instance \<open>program_config\<close>; the state record \<open>fields\<close> (\<open>ez\<close>, \<open>hy\<close>),
    its allocation \<open>init_fields\<close> and the invariant \<open>wf_fields\<close> (both lists have
    \<^verbatim>\<open>SIZE\<close> cells).
  \<^item> \<open>Update\<close>, lines 14--20: the two loops statement by statement
    (\<open>hy_body\<close>/\<open>update_hy\<close>, \<open>ez_body\<close>/\<open>update_ez\<close>), their whole-array form
    (\<open>hy_next\<close>, \<open>ez_next\<close>), and \<open>ez_next_zero\<close>, the electric update with a
    zero field before cell 0 in place of the wrap-around.
  \<^item> \<open>Source\<close>, line 23: \<open>source\<close>, the Gaussian pulse.
  \<^item> \<open>Stepper\<close>, lines 11--25: \<open>step\<close> (one loop body in the code's order,
    observation included), \<open>run_loop\<close> and \<open>run\<close> (the driver: the printed values
    and the final state or exception), the abstract step \<open>leapfrog\<close> and its iterate
    \<open>fields_at\<close>, and \<open>reach\<close>, the step relation of the driver (the state after
    \<open>k\<close> iterations).
  \<^item> \<open>Propagation\<close>: the travelling-pulse solution \<open>exact_ez\<close>/\<open>exact_hy\<close> and
    the proofs that the scheme follows it.
  \<^item> \<open>ClosedForm\<close>: the complete solution for every step, reflections at both ends
    included: the pulse train \<open>pulse_train\<close> leaving cell 0 and the closed forms
    \<open>ez_closed\<close>/\<open>hy_closed\<close>.
  \<^item> \<open>Spec2Isabelle\<close>: this header and the properties of the checked-in program.

  \<^medskip>
  \<^bold>\<open>What the lemmas show.\<close>
  \<^item> Refinement. Each in-place loop equals its whole-array update
    (\<open>Update.update_hy_spec\<close>, \<open>Update.update_ez_spec\<close>). So the magnetic update
    reads only the old electric field, and the electric update only the new magnetic
    field: the leapfrog order. \<open>Stepper.step_spec\<close> gives one step on every branch,
    errors included, as the abstract step. \<open>Stepper.reach_fields_at\<close> identifies the
    reachable states with \<open>fields_at\<close>, and \<open>Stepper.run_spec\<close> gives a whole run.
  \<^item> Invariants, by rule induction on \<open>reach\<close>: both lists keep \<^verbatim>\<open>SIZE\<close>
    cells (\<open>Stepper.reach_wf\<close>), and \<^verbatim>\<open>hy[SIZE - 1]\<close> stays \<open>0.0\<close>
    (\<open>Stepper.reach_hy_last\<close>).
  \<^item> Errors and termination. \<open>IndexError\<close> for \<^verbatim>\<open>SIZE \<le> 50\<close>,
    \<open>ZeroDivisionError\<close> for \<^verbatim>\<open>imp0 = 0\<close>, no output and no error for
    \<^verbatim>\<open>maxTime \<le> 0\<close>, and exactly \<^verbatim>\<open>maxTime\<close> printed values in a successful
    run (\<open>Stepper.run_index_error\<close>, \<open>Stepper.run_zero_division\<close>,
    \<open>Stepper.run_no_steps\<close>, \<open>Stepper.run_output_length\<close>).
  \<^item> Propagation. The coefficients \<open>1/imp0\<close> and \<open>imp0\<close> multiply to 1, so one
    step moves the wave exactly one cell, for every non-zero impedance. The theory
    proves causality (\<open>Propagation.causality\<close>), the exact travelling-pulse solution up
    to the return of the wave reflected at the right end
    (\<open>Propagation.exact_solution\<close>), and the leading edge
    (\<open>Propagation.leading_edge\<close>).
  \<^item> Complete solution. For every step, \<^verbatim>\<open>ez[m]\<close> is the pulse train leaving cell
    0 plus its mirror image at the frozen last magnetic cell
    (\<open>ClosedForm.closed_form_solution\<close>). The right end reflects the electric wave
    with the same sign, and the hard source reflects it with the opposite sign. With the
    checked-in grid, the value printed at any step of a run of any length is known in
    closed form (\<open>ClosedForm.program_any_duration\<close>): the reflected pulse
    reaches the probe at step 379.
  \<^item> Stability. The pulse train is an alternating sum of source values that rise up
    to step 30 and fall after it, so it stays in \<open>[-1, 1]\<close>. Hence, for every
    non-zero impedance and every step, \<^verbatim>\<open>|ez[m]| \<le> 2\<close> and
    \<^verbatim>\<open>|hy[m]| \<le> 2 / |imp0|\<close> (\<open>ClosedForm.stability\<close>). The scheme never
    blows up; the bound is nearly reached at the last cell, where the pulse and its
    reflection add up.
  \<^item> The checked-in program. It prints 50 exact zeros, then the pulse delayed by 50
    steps, \<open>source (q - 50)\<close> at step \<open>q\<close>, peaking at 1 at step 80
    (\<open>program_output\<close>, \<open>program_peak\<close>). The wrap-around read \<^verbatim>\<open>hy[-1]\<close>
    has no effect on any state (\<open>wrap_unobservable\<close>).
  \<^item> The pulse itself: its peak, symmetry and monotonicity (\<open>Source\<close>).

  \<^medskip>
  \<^bold>\<open>Modelling choices.\<close> Python floats are modelled as real numbers, so the
  theorems are about exact arithmetic. Some facts rest only on zeros and on which cells
  are written: causality, the frozen last cell, the lengths, the errors and the order
  of the updates. These hold for doubles as well, since \<open>0.0\<close> plus or minus
  \<open>0.0\<close>, times or divided by a finite non-zero number, is \<open>0.0\<close>. The exact
  solution holds for doubles only up to rounding. The driver loop is structural
  recursion over the list \<^verbatim>\<open>range(maxTime)\<close>, so every run terminates and no
  fuel is needed. The constants are \<open>int\<close>, so negative values behave as in Python
  (\<^verbatim>\<open>[0.0] * n\<close> and \<^verbatim>\<open>range(n)\<close> are empty). The exponent of the source
  uses Python 3's true division. It is computed by the real \<open>exp\<close>, which is positive
  everywhere; the double \<^verbatim>\<open>math.exp\<close> underflows to \<open>0.0\<close> from step 303 on. The
  bounds proved here use only that the source lies in \<open>[0, 1]\<close> and rises up to step
  30 and falls after it, which the double values share.

  \<^medskip>
  \<^bold>\<open>Not modelled.\<close> The text that \<^verbatim>\<open>print\<close> writes (the shortest decimal repr
  of a double): the model returns the printed values as reals. The interpreter's
  resource limits. IEEE-754 rounding, infinities and NaNs.

  \<^medskip>
  \<^bold>\<open>Plan.\<close> Modelled first, in order: the grid, the two updates, the source, the
  step and the driver; then the propagation before the reflection returns; then the
  complete solution and the bounds it gives for every step. Still to do:
  \<^item> an error-bound model of the double arithmetic for the zero-propagation facts;
  \<^item> the printed text of \<^verbatim>\<open>print\<close>, should a model of Python's float repr be needed.
\<close>

section \<open>The program as checked in\<close>

lemma ez_next_zero_agrees:
  assumes "length h = length e"
  shows "(ez_next imp e h)[0 := v] = (ez_next_zero imp e h)[0 := v]"
proof (rule nth_equalityI)
  show "length ((ez_next imp e h)[0 := v]) = length ((ez_next_zero imp e h)[0 := v])"
    by (simp add: ez_next_zero_def)
next
  fix i
  assume "i < length ((ez_next imp e h)[0 := v])"
  with assms show "(ez_next imp e h)[0 := v] ! i = (ez_next_zero imp e h)[0 := v] ! i"
    by (cases "i = 0") (simp_all add: nth_list_update ez_next_zero_def nth_ez_next)
qed

lemma program_output_eq:
  "run program_config =
     (map (\<lambda>q. if q < 50 then 0 else source (int q - 50)) [0..<250],
      Inr (fields_at program_config 250))"
proof -
  have out: "ez (fields_at program_config (Suc q)) ! 50 =
      (if q < 50 then 0 else source (int q - 50))" if "q < 250" for q
  proof -
    from that have "ez (fields_at program_config (Suc q)) ! 50 = exact_ez (Suc q) 50"
      using exact_fields_at [of program_config 50 "Suc q"] by simp
    then show ?thesis
      by (simp add: exact_ez_def of_nat_diff)
  qed
  have "run program_config =
      (map (\<lambda>q. ez (fields_at program_config (Suc q)) ! 50) [0..<250],
       Inr (fields_at program_config 250))"
    using run_eq [of program_config] by simp
  also have "map (\<lambda>q. ez (fields_at program_config (Suc q)) ! 50) [0..<250] =
      map (\<lambda>q. if q < 50 then 0 else source (int q - 50)) [0..<250]"
  proof (rule map_cong [OF refl])
    fix q
    assume "q \<in> set [0..<250]"
    then show "ez (fields_at program_config (Suc q)) ! 50 =
        (if q < 50 then 0 else source (int q - 50))"
      by (intro out) simp
  qed
  finally show ?thesis .
qed

text \<open>
  C1. The program as checked in (\<^verbatim>\<open>SIZE = 200\<close>, \<^verbatim>\<open>imp0 = 377.0\<close>,
  \<^verbatim>\<open>maxTime = 250\<close>) runs without an exception and prints 250 values: exactly
  \<open>0.0\<close> at steps 0 to 49, and the source pulse delayed by 50 steps,
  \<open>source (q - 50)\<close>, at every step \<open>q\<close> from 50 on.
\<close>

theorem program_output:
  "run program_config =
     (map (\<lambda>q. if q < 50 then 0 else source (int q - 50)) [0..<250],
      Inr (fields_at program_config 250))"
  by (rule program_output_eq)

text \<open>
  C11. The wrap-around read \<^verbatim>\<open>hy[mm - 1]\<close> at \<^verbatim>\<open>mm = 0\<close> (Python's
  \<^verbatim>\<open>hy[-1]\<close>) has no effect: the only cell it enters is \<^verbatim>\<open>ez[0]\<close>, which the
  hard source overwrites in the same step, so one step of the program computes the
  same state as the same scheme with a zero magnetic field before cell 0.
\<close>

theorem wrap_unobservable:
  assumes "wf_fields c s"
  shows "leapfrog c q s =
    s\<lparr>hy := hy_next (imp0 c) (ez s) (hy s),
      ez := (ez_next_zero (imp0 c) (ez s) (hy_next (imp0 c) (ez s) (hy s)))[0 := source q]\<rparr>"
  using assms ez_next_zero_agrees [of "hy_next (imp0 c) (ez s) (hy s)" "ez s"]
  by (simp add: leapfrog_def Let_def wf_fields_def)

theorem wrap_unobservable_witness:
  "wf_fields \<lparr>SIZE = 3, imp0 = 2, maxTime = 1\<rparr> \<lparr>ez = [1, 2, 4], hy = [1, 3, 5]\<rparr> \<and>
   leapfrog \<lparr>SIZE = 3, imp0 = 2, maxTime = 1\<rparr> 30 \<lparr>ez = [1, 2, 4], hy = [1, 3, 5]\<rparr> =
   \<lparr>ez = [1, 7, 6], hy = [3 / 2, 4, 5]\<rparr>"
proof -
  let ?c = "\<lparr>SIZE = 3, imp0 = 2, maxTime = 1\<rparr>" and ?s = "\<lparr>ez = [1, 2, 4], hy = [1, 3, 5 :: real]\<rparr>"
  have wf: "wf_fields ?c ?s" by (simp add: wf_fields_def)
  from wrap_unobservable [OF wf, of 30] wf show ?thesis
    by (simp add: hy_next_def ez_next_zero_def source_def upt_rec)
qed

text \<open>
  C17. The printed signal of the program as checked in reaches \<open>1.0\<close> at step 80,
  the source peak of step 30 delayed by the 50 cells to the observation point, and
  at no other step.
\<close>

theorem program_peak:
  assumes "q < 250"
  shows "fst (run program_config) ! q = 1 \<longleftrightarrow> q = 80"
  using assms by (auto simp: program_output_eq source_eq_one_iff)

theorem program_peak_witness: "(80::nat) < 250 \<and> fst (run program_config) ! 80 = 1"
  using program_peak [of 80] by simp

end
